theory Spec2Isabelle
  imports Complex_Main
begin

section \<open>Python values and exceptions\<close>

text \<open>
  \<^verbatim>\<open>scripts/caddy_to_clf.py\<close> converts one JSON access-log record per line into a line of
  the Combined Log Format. The record is whatever \<^verbatim>\<open>json.loads\<close> returns: \<^verbatim>\<open>None\<close>, a
  \<^verbatim>\<open>bool\<close>, an \<^verbatim>\<open>int\<close>, a \<^verbatim>\<open>float\<close>, a \<^verbatim>\<open>str\<close>, a \<^verbatim>\<open>list\<close> or a \<^verbatim>\<open>dict\<close> with
  string keys. A dictionary is kept as an association list in insertion order, read
  with \<open>map_of\<close>. A string is a list of code points below 256. A finite float is
  its exact rational value (the sign of zero is not kept).
\<close>

datatype pyfloat = Finite rat | PosInf | NegInf | NaN

datatype pyval =
    PyNone
  | PyBool bool
  | PyInt int
  | PyFloat pyfloat
  | PyStr string
  | PyList "pyval list"
  | PyDict "(string \<times> pyval) list"

text \<open>
  The exception classes that the converter's calls can raise. \<open>JSONDecodeError\<close> is a
  subclass of \<open>ValueError\<close>; none of the others is a subclass of a class named by the
  \<^verbatim>\<open>except\<close> clause.
\<close>

datatype exn =
    JSONDecodeError
  | KeyError
  | ValueError
  | AttributeError
  | TypeError
  | IndexError
  | OverflowError
  | OSError
  | RecursionError

text \<open>
  What the interpreter and its host provide and the script does not define: the JSON
  parser, the text of a float, and the local zone's offset from UTC (in seconds, east
  positive) at an instant given in seconds since the epoch.
\<close>

record runtime =
  loads :: "string \<Rightarrow> exn + pyval"
  float_repr :: "pyfloat \<Rightarrow> string"
  utcoffset :: "int \<Rightarrow> int"

definition andThen :: "exn + 'a \<Rightarrow> ('a \<Rightarrow> exn + 'b) \<Rightarrow> exn + 'b" where
  "andThen m f = (case m of Inl e \<Rightarrow> Inl e | Inr x \<Rightarrow> f x)"

section \<open>Text of a value: \<^verbatim>\<open>str\<close> and \<^verbatim>\<open>repr\<close>\<close>

fun digits :: "nat \<Rightarrow> string" where
  "digits n =
     (if n < 10 then [''0123456789'' ! n]
      else digits (n div 10) @ [''0123456789'' ! (n mod 10)])"

declare digits.simps [simp del]

definition int_str :: "int \<Rightarrow> string" where
  "int_str i = (if i < 0 then CHR ''-'' # digits (nat (- i)) else digits (nat i))"

definition hex2 :: "nat \<Rightarrow> string" where
  "hex2 n = [''0123456789abcdef'' ! (n div 16), ''0123456789abcdef'' ! (n mod 16)]"

definition printable :: "char \<Rightarrow> bool" where
  "printable c =
     (let n = (of_char c :: nat) in (32 \<le> n \<and> n < 127) \<or> (161 \<le> n \<and> n \<noteq> 173))"

definition repr_char :: "char \<Rightarrow> char \<Rightarrow> string" where
  "repr_char quote c =
     (if c = quote \<or> c = CHR 0x5C then [CHR 0x5C, c]
      else if c = CHR 0x09 then [CHR 0x5C, CHR ''t'']
      else if c = CHR 0x0A then [CHR 0x5C, CHR ''n'']
      else if c = CHR 0x0D then [CHR 0x5C, CHR ''r'']
      else if printable c then [c]
      else [CHR 0x5C, CHR ''x''] @ hex2 (of_char c))"

definition str_repr :: "string \<Rightarrow> string" where
  "str_repr s =
     (let quote = (if CHR 0x27 \<in> set s \<and> CHR 0x22 \<notin> set s then CHR 0x22 else CHR 0x27)
      in quote # concat (map (repr_char quote) s) @ [quote])"

fun join :: "string \<Rightarrow> string list \<Rightarrow> string" where
  "join sep [] = []"
| "join sep [x] = x"
| "join sep (x # y # ys) = x @ sep @ join sep (y # ys)"

fun py_repr :: "(pyfloat \<Rightarrow> string) \<Rightarrow> pyval \<Rightarrow> string" where
  "py_repr fr PyNone = ''None''"
| "py_repr fr (PyBool b) = (if b then ''True'' else ''False'')"
| "py_repr fr (PyInt i) = int_str i"
| "py_repr fr (PyFloat x) = fr x"
| "py_repr fr (PyStr s) = str_repr s"
| "py_repr fr (PyList xs) = ''['' @ join '', '' (map (py_repr fr) xs) @ '']''"
| "py_repr fr (PyDict kvs) =
     ''{'' @ join '', '' (map (\<lambda>(k, v). str_repr k @ '': '' @ py_repr fr v) kvs) @ ''}''"

text \<open>
  A replacement field \<^verbatim>\<open>{x}\<close> of an f-string is \<^verbatim>\<open>format(x, '')\<close>, which is
  \<^verbatim>\<open>str(x)\<close> for each of these types: a string is itself, anything else its \<^verbatim>\<open>repr\<close>.
\<close>

fun py_str :: "(pyfloat \<Rightarrow> string) \<Rightarrow> pyval \<Rightarrow> string" where
  "py_str fr (PyStr s) = s"
| "py_str fr v = py_repr fr v"

section \<open>The operations the converter applies to a value\<close>

text \<open>\<^verbatim>\<open>obj.get(key, default)\<close>: only a \<^verbatim>\<open>dict\<close> has the method.\<close>

fun py_get :: "pyval \<Rightarrow> string \<Rightarrow> pyval \<Rightarrow> exn + pyval" where
  "py_get (PyDict kvs) key dflt =
     Inr (case map_of kvs key of None \<Rightarrow> dflt | Some v \<Rightarrow> v)"
| "py_get obj key dflt = Inl AttributeError"

text \<open>The truth value of an object, as \<^verbatim>\<open>if\<close> and \<^verbatim>\<open>or\<close> test it.\<close>

fun truthy :: "pyval \<Rightarrow> bool" where
  "truthy PyNone = False"
| "truthy (PyBool b) = b"
| "truthy (PyInt i) = (i \<noteq> 0)"
| "truthy (PyFloat x) = (x \<noteq> Finite 0)"
| "truthy (PyStr s) = (s \<noteq> [])"
| "truthy (PyList xs) = (xs \<noteq> [])"
| "truthy (PyDict kvs) = (kvs \<noteq> [])"

text \<open>
  \<^verbatim>\<open>obj[0]\<close>: the first element of a list, the first character of a string; a
  dictionary parsed from JSON has string keys only, so the key \<^verbatim>\<open>0\<close> is missing; the
  other types are not subscriptable.
\<close>

fun getitem0 :: "pyval \<Rightarrow> exn + pyval" where
  "getitem0 (PyList []) = Inl IndexError"
| "getitem0 (PyList (x # xs)) = Inr x"
| "getitem0 (PyStr []) = Inl IndexError"
| "getitem0 (PyStr (c # cs)) = Inr (PyStr [c])"
| "getitem0 (PyDict kvs) = Inl KeyError"
| "getitem0 obj = Inl TypeError"

text \<open>
  The expression of lines 41 and 42, for the header \<open>name\<close>:
  \<^verbatim>\<open>headers.get(name, ['-'])[0] if headers.get(name) else '-'\<close>.
  The condition is evaluated first.
\<close>

definition header_first :: "pyval \<Rightarrow> string \<Rightarrow> exn + pyval" where
  "header_first headers name =
     andThen (py_get headers name PyNone) (\<lambda>c.
       if truthy c then andThen (py_get headers name (PyList [PyStr ''-''])) getitem0
       else Inr (PyStr ''-''))"

section \<open>\<^verbatim>\<open>datetime.fromtimestamp\<close> and \<^verbatim>\<open>strftime\<close>\<close>

text \<open>
  A \<^verbatim>\<open>datetime\<close> object. \<open>tzinfo\<close> is the offset of an aware object, in seconds, and
  \<open>None\<close> for a naive one.
\<close>

record datetime =
  year :: int
  month :: int
  day :: int
  hour :: int
  minute :: int
  second :: int
  microsecond :: int
  tzinfo :: "int option"

definition round_half_even :: "rat \<Rightarrow> int" where
  "round_half_even x =
     (let f = \<lfloor>x\<rfloor>; d = x - of_int f
      in if d < 1 / 2 then f else if 1 / 2 < d then f + 1 else if even f then f else f + 1)"

text \<open>A \<^verbatim>\<open>time_t\<close> is a signed 64-bit integer.\<close>

definition time_t_checked :: "int \<Rightarrow> int \<Rightarrow> exn + int \<times> int" where
  "time_t_checked secs us =
     (if - (2 ^ 63) \<le> secs \<and> secs < 2 ^ 63 then Inr (secs, us) else Inl OverflowError)"

text \<open>
  The argument of \<^verbatim>\<open>fromtimestamp\<close> as whole seconds and microseconds: an integer
  (a \<^verbatim>\<open>bool\<close> is one) as it is, a float rounded half-even to the microsecond (here
  on its exact value); a
  NaN is a \<^verbatim>\<open>ValueError\<close>, an infinity or a value outside \<^verbatim>\<open>time_t\<close> an
  \<^verbatim>\<open>OverflowError\<close>, and any other type a \<^verbatim>\<open>TypeError\<close>.
\<close>

fun to_timeval :: "pyval \<Rightarrow> exn + int \<times> int" where
  "to_timeval (PyInt i) = time_t_checked i 0"
| "to_timeval (PyBool b) = Inr (if b then 1 else 0, 0)"
| "to_timeval (PyFloat NaN) = Inl ValueError"
| "to_timeval (PyFloat PosInf) = Inl OverflowError"
| "to_timeval (PyFloat NegInf) = Inl OverflowError"
| "to_timeval (PyFloat (Finite q)) =
     (let us = round_half_even (q * 1000000)
      in time_t_checked (us div 1000000) (us mod 1000000))"
| "to_timeval obj = Inl TypeError"

text \<open>The date of a day number (days since 1970-01-01) in the Gregorian calendar.\<close>

definition civil_from_days :: "int \<Rightarrow> int \<times> int \<times> int" where
  "civil_from_days z0 =
     (let z = z0 + 719468;
          era = z div 146097;
          doe = z mod 146097;
          yoe = (doe - doe div 1460 + doe div 36524 - doe div 146096) div 365;
          doy = doe - (365 * yoe + yoe div 4 - yoe div 100);
          mp = (5 * doy + 2) div 153;
          d = doy - (153 * mp + 2) div 5 + 1;
          m = (if mp < 10 then mp + 3 else mp - 9);
          y = yoe + era * 400 + (if m \<le> 2 then 1 else 0)
      in (y, m, d))"

text \<open>
  \<^verbatim>\<open>datetime.fromtimestamp(timestamp)\<close>, with no \<^verbatim>\<open>tz\<close> argument: the local date and
  time of the instant, as a naive object. The C library's \<^verbatim>\<open>localtime\<close> fails when
  the year does not fit \<^verbatim>\<open>tm_year\<close> (an \<^verbatim>\<open>OSError\<close>); a year outside 1..9999 is a
  \<^verbatim>\<open>ValueError\<close>.
\<close>

definition fromtimestamp :: "runtime \<Rightarrow> pyval \<Rightarrow> exn + datetime" where
  "fromtimestamp rt timestamp =
     andThen (to_timeval timestamp) (\<lambda>(timet, us).
       let lt = timet + utcoffset rt timet;
           (y, m, d) = civil_from_days (lt div 86400);
           sod = lt mod 86400
       in if y - 1900 < - (2 ^ 31) \<or> 2 ^ 31 \<le> y - 1900 then Inl OSError
          else if y < 1 \<or> 9999 < y then Inl ValueError
          else Inr \<lparr>year = y, month = m, day = d, hour = sod div 3600,
                    minute = sod mod 3600 div 60, second = sod mod 60,
                    microsecond = us, tzinfo = None\<rparr>)"

definition zfill :: "nat \<Rightarrow> string \<Rightarrow> string" where
  "zfill n s = replicate (n - length s) (CHR ''0'') @ s"

definition month_abbr :: "int \<Rightarrow> string" where
  "month_abbr m =
     [''Jan'', ''Feb'', ''Mar'', ''Apr'', ''May'', ''Jun'',
      ''Jul'', ''Aug'', ''Sep'', ''Oct'', ''Nov'', ''Dec''] ! nat (m - 1)"

text \<open>
  One conversion of a format, in the C locale. \<^verbatim>\<open>%z\<close> is the offset \<open>\<plusminus>HHMM\<close> of an
  aware object and the empty string for a naive one. The year is written with at
  least four digits (C libraries differ on a year below 1000; nothing below depends
  on it). A character that is none of the conversions below is left as it stands.
\<close>

definition directive :: "char \<Rightarrow> datetime \<Rightarrow> string" where
  "directive c dt =
     (if c = CHR ''d'' then zfill 2 (int_str (day dt))
      else if c = CHR ''b'' then month_abbr (month dt)
      else if c = CHR ''Y'' then zfill 4 (int_str (year dt))
      else if c = CHR ''H'' then zfill 2 (int_str (hour dt))
      else if c = CHR ''M'' then zfill 2 (int_str (minute dt))
      else if c = CHR ''S'' then zfill 2 (int_str (second dt))
      else if c = CHR ''z'' then
        (case tzinfo dt of
           None \<Rightarrow> []
         | Some off \<Rightarrow>
             (if off < 0 then ''-'' else ''+'') @ zfill 2 (int_str (\<bar>off\<bar> div 3600))
               @ zfill 2 (int_str (\<bar>off\<bar> mod 3600 div 60)))
      else if c = CHR ''%'' then ''%''
      else [CHR ''%'', c])"

fun strftime :: "datetime \<Rightarrow> string \<Rightarrow> string" where
  "strftime dt [] = []"
| "strftime dt [c] = [c]"
| "strftime dt (c # d # fmt) =
     (if c = CHR ''%'' then directive d dt @ strftime dt fmt
      else c # strftime dt (d # fmt))"

section \<open>The converter\<close>

text \<open>
  The body of the \<^verbatim>\<open>try\<close> statement of \<^verbatim>\<open>json_to_clf\<close> (lines 15 to 47), statement
  by statement. \<open>Inl e\<close> is the exception \<open>e\<close> raised, \<open>Inr None\<close> the return of
  \<^verbatim>\<open>None\<close>, \<open>Inr (Some s)\<close> the return of the line \<open>s\<close>. \<open>time_str\<close> is the
  expression of line 31 (\<^verbatim>\<open>a or b\<close> is \<^verbatim>\<open>a\<close> unless \<^verbatim>\<open>a\<close> is empty) and
  \<open>clf_format\<close> the f-string of line 45.
\<close>

definition time_str :: "datetime \<Rightarrow> string" where
  "time_str dt =
     (if strftime dt ''%d/%b/%Y:%H:%M:%S %z'' \<noteq> [] then strftime dt ''%d/%b/%Y:%H:%M:%S %z''
      else strftime dt ''%d/%b/%Y:%H:%M:%S +0000'')"

definition clf_format ::
  "(pyfloat \<Rightarrow> string) \<Rightarrow> pyval \<Rightarrow> string \<Rightarrow> pyval \<Rightarrow> pyval \<Rightarrow> pyval \<Rightarrow> pyval \<Rightarrow> pyval
     \<Rightarrow> pyval \<Rightarrow> pyval \<Rightarrow> string" where
  \<open>clf_format fr remote_ip time method uri proto status sz referer user_agent =
     py_str fr remote_ip @ '' - - ['' @ time @ ''] "'' @ py_str fr method @ '' ''
       @ py_str fr uri @ '' '' @ py_str fr proto @ ''" '' @ py_str fr status @ '' ''
       @ py_str fr sz @ '' "'' @ py_str fr referer @ ''" "'' @ py_str fr user_agent @ ''"''\<close>

definition json_to_clf_body :: "runtime \<Rightarrow> string \<Rightarrow> exn + string option" where
  "json_to_clf_body rt json_line =
     andThen (loads rt json_line) (\<lambda>data.
     andThen (py_get data ''logger'' PyNone) (\<lambda>logger.
     if logger \<noteq> PyStr ''http.log.access.log0'' then Inr None
     else
     andThen (py_get data ''request'' (PyDict [])) (\<lambda>request.
     andThen (py_get request ''remote_ip'' (PyStr ''-'')) (\<lambda>remote_ip0.
     let remote_ip = (if remote_ip0 = PyStr ''::1'' then PyStr ''127.0.0.1'' else remote_ip0) in
     andThen (py_get data ''ts'' (PyInt 0)) (\<lambda>timestamp.
     andThen (fromtimestamp rt timestamp) (\<lambda>dt.
     andThen (py_get request ''method'' (PyStr ''-'')) (\<lambda>method.
     andThen (py_get request ''uri'' (PyStr ''-'')) (\<lambda>uri.
     andThen (py_get request ''proto'' (PyStr ''-'')) (\<lambda>proto.
     andThen (py_get data ''status'' (PyInt 0)) (\<lambda>status.
     andThen (py_get data ''size'' (PyInt 0)) (\<lambda>size.
     andThen (py_get request ''headers'' (PyDict [])) (\<lambda>headers.
     andThen (header_first headers ''User-Agent'') (\<lambda>user_agent.
     andThen (header_first headers ''Referer'') (\<lambda>referer.
     Inr (Some (clf_format (float_repr rt) remote_ip (time_str dt) method uri proto
       status size referer user_agent))))))))))))))))"

text \<open>
  \<^verbatim>\<open>except (json.JSONDecodeError, KeyError, ValueError)\<close> (line 49): an exception of
  one of these classes makes the function return \<^verbatim>\<open>None\<close>; any other leaves it.
\<close>

definition caught :: "exn \<Rightarrow> bool" where
  "caught e = (e = JSONDecodeError \<or> e = KeyError \<or> e = ValueError)"

definition json_to_clf :: "runtime \<Rightarrow> string \<Rightarrow> exn + string option" where
  "json_to_clf rt json_line =
     (case json_to_clf_body rt json_line of
        Inl e \<Rightarrow> if caught e then Inr None else Inl e
      | Inr r \<Rightarrow> Inr r)"

section \<open>The driver\<close>

text \<open>\<^verbatim>\<open>str.strip()\<close> removes the white space at both ends.\<close>

definition isspace :: "char \<Rightarrow> bool" where
  "isspace c =
     (let n = (of_char c :: nat)
      in (9 \<le> n \<and> n \<le> 13) \<or> (28 \<le> n \<and> n \<le> 32) \<or> n = 133 \<or> n = 160)"

definition strip :: "string \<Rightarrow> string" where
  "strip s = rev (dropWhile isspace (rev (dropWhile isspace s)))"

text \<open>
  The loop of lines 54 to 57 over the lines of the standard input. The result is the
  lines printed, in order, and the exception that ended the loop, if one did.
\<close>

fun main :: "runtime \<Rightarrow> string list \<Rightarrow> string list \<times> exn option" where
  "main rt [] = ([], None)"
| "main rt (line # rest) =
     (case json_to_clf rt (strip line) of
        Inl e \<Rightarrow> ([], Some e)
      | Inr clf_line \<Rightarrow>
          (let printed = (case clf_line of None \<Rightarrow> [] | Some s \<Rightarrow> if s \<noteq> [] then [s] else [])
           in case main rt rest of (out, e) \<Rightarrow> (printed @ out, e)))"

section \<open>Example inputs\<close>

text \<open>
  The lines of the specification's scenarios, each with the value that \<^verbatim>\<open>json.loads\<close>
  returns for it, and a runtime for them: its parser knows these lines and rejects
  every other text, its zone is at a fixed offset, and no float is printed on them.
\<close>

definition access_line :: string where
  \<open>access_line = ''{"logger":"http.log.access.log0","ts":1700000000,"status":200,"size":512,"request":{"remote_ip":"::1","method":"GET","uri":"/index.html","proto":"HTTP/1.1","headers":{"User-Agent":["TestAgent/1.0"]}}}''\<close>

definition access_request :: "(string \<times> pyval) list" where
  "access_request =
     [(''remote_ip'', PyStr ''::1''), (''method'', PyStr ''GET''),
      (''uri'', PyStr ''/index.html''), (''proto'', PyStr ''HTTP/1.1''),
      (''headers'', PyDict [(''User-Agent'', PyList [PyStr ''TestAgent/1.0''])])]"

definition access_record :: "(string \<times> pyval) list" where
  "access_record =
     [(''logger'', PyStr ''http.log.access.log0''), (''ts'', PyInt 1700000000),
      (''status'', PyInt 200), (''size'', PyInt 512), (''request'', PyDict access_request)]"

definition tls_line :: string where
  \<open>tls_line = ''{"logger":"tls.handshake","status":200}''\<close>

definition tls_record :: "(string \<times> pyval) list" where
  "tls_record = [(''logger'', PyStr ''tls.handshake''), (''status'', PyInt 200)]"

definition full_line :: string where
  \<open>full_line = ''{"logger":"http.log.access.log0","ts":1700000000.5,"status":404,"size":0,"request":{"remote_ip":"203.0.113.9","method":"POST","uri":"/api","proto":"HTTP/2.0","headers":{"User-Agent":["curl/8.0"],"Referer":["https://example.org/","x"]}}}''\<close>

definition full_headers :: "(string \<times> pyval) list" where
  "full_headers =
     [(''User-Agent'', PyList [PyStr ''curl/8.0'']),
      (''Referer'', PyList [PyStr ''https://example.org/'', PyStr ''x''])]"

definition full_request :: "(string \<times> pyval) list" where
  "full_request =
     [(''remote_ip'', PyStr ''203.0.113.9''), (''method'', PyStr ''POST''),
      (''uri'', PyStr ''/api''), (''proto'', PyStr ''HTTP/2.0''),
      (''headers'', PyDict full_headers)]"

definition full_record :: "(string \<times> pyval) list" where
  "full_record =
     [(''logger'', PyStr ''http.log.access.log0''),
      (''ts'', PyFloat (Finite (3400000001 / 2))),
      (''status'', PyInt 404), (''size'', PyInt 0), (''request'', PyDict full_request)]"

definition sparse_line :: string where
  \<open>sparse_line = ''{"logger":"http.log.access.log0","status":"200","size":[1,"a"],"request":{"uri":"/x","headers":{"User-Agent":[]}}}''\<close>

definition sparse_request :: "(string \<times> pyval) list" where
  "sparse_request = [(''uri'', PyStr ''/x''), (''headers'', PyDict [(''User-Agent'', PyList [])])]"

definition sparse_record :: "(string \<times> pyval) list" where
  "sparse_record =
     [(''logger'', PyStr ''http.log.access.log0''), (''status'', PyStr ''200''),
      (''size'', PyList [PyInt 1, PyStr ''a'']), (''request'', PyDict sparse_request)]"

definition bare_line :: string where
  \<open>bare_line = ''{"logger":"http.log.access.log0"}''\<close>

definition text_ts_line :: string where
  \<open>text_ts_line = ''{"logger":"http.log.access.log0","ts":"1700000000"}''\<close>

definition text_ts_record :: "(string \<times> pyval) list" where
  "text_ts_record = [(''logger'', PyStr ''http.log.access.log0''), (''ts'', PyStr ''1700000000'')]"

definition example_loads :: "string \<Rightarrow> exn + pyval" where
  "example_loads s =
     (if s = access_line then Inr (PyDict access_record)
      else if s = full_line then Inr (PyDict full_record)
      else if s = sparse_line then Inr (PyDict sparse_record)
      else if s = bare_line then Inr (PyDict [(''logger'', PyStr ''http.log.access.log0'')])
      else if s = tls_line then Inr (PyDict tls_record)
      else if s = text_ts_line then Inr (PyDict text_ts_record)
      else if s = ''[]'' then Inr (PyList [])
      else Inl JSONDecodeError)"

definition example_runtime :: "int \<Rightarrow> runtime" where
  "example_runtime off =
     \<lparr>loads = example_loads, float_repr = (\<lambda>x. []), utcoffset = (\<lambda>t. off)\<rparr>"

section \<open>Facts about the parts\<close>

lemma andThen_Inr [simp]: "andThen (Inr x) f = f x"
  by (simp add: andThen_def)

lemma andThen_Inl [simp]: "andThen (Inl e) f = Inl e"
  by (simp add: andThen_def)

lemma strftime_primary_nonempty: "strftime dt ''%d/%b/%Y:%H:%M:%S %z'' \<noteq> []"
  by simp

lemma json_to_clf_run:
  assumes "loads rt json_line = Inr data"
    and "py_get data ''logger'' PyNone = Inr (PyStr ''http.log.access.log0'')"
    and "py_get data ''request'' (PyDict []) = Inr request"
    and "py_get request ''remote_ip'' (PyStr ''-'') = Inr remote_ip"
    and "py_get data ''ts'' (PyInt 0) = Inr timestamp"
    and "fromtimestamp rt timestamp = Inr dt"
    and "py_get request ''method'' (PyStr ''-'') = Inr method"
    and "py_get request ''uri'' (PyStr ''-'') = Inr uri"
    and "py_get request ''proto'' (PyStr ''-'') = Inr proto"
    and "py_get data ''status'' (PyInt 0) = Inr status"
    and "py_get data ''size'' (PyInt 0) = Inr sz"
    and "py_get request ''headers'' (PyDict []) = Inr headers"
    and "header_first headers ''User-Agent'' = Inr user_agent"
    and "header_first headers ''Referer'' = Inr referer"
  shows "json_to_clf rt json_line =
    Inr (Some (clf_format (float_repr rt)
      (if remote_ip = PyStr ''::1'' then PyStr ''127.0.0.1'' else remote_ip)
      (time_str dt) method uri proto status sz referer user_agent))"
  using assms by (simp add: json_to_clf_def json_to_clf_body_def)

lemma header_first_list:
  assumes "py_get (PyDict headers) name (PyList []) = Inr (PyList xs)"
  shows "header_first (PyDict headers) name = Inr (case xs of [] \<Rightarrow> PyStr ''-'' | x # _ \<Rightarrow> x)"
proof (cases "map_of headers name")
  case None
  with assms have "xs = []" by simp
  with None show ?thesis by (simp add: header_first_def)
next
  case (Some v)
  with assms have v: "v = PyList xs" by simp
  show ?thesis
  proof (cases xs)
    case Nil
    with Some v show ?thesis by (simp add: header_first_def)
  next
    case (Cons x rest)
    with Some v show ?thesis by (simp add: header_first_def)
  qed
qed

lemma time_str_primary: "time_str dt = strftime dt ''%d/%b/%Y:%H:%M:%S %z''"
  by (simp add: time_str_def strftime_primary_nonempty del: strftime.simps)

lemma fromtimestamp_naive: "fromtimestamp rt ts = Inr dt \<Longrightarrow> tzinfo dt = None"
  by (auto simp: fromtimestamp_def andThen_def Let_def split: sum.splits prod.splits if_splits)

section \<open>The logger filter\<close>

text \<open>
  C3. When the line parses to a JSON object whose \<open>logger\<close> entry is missing or is
  anything but the string \<open>http.log.access.log0\<close>, the converter returns \<^verbatim>\<open>None\<close>
  whatever the other entries are, and the driver prints nothing for that line and goes
  on with the lines after it.
\<close>

theorem non_access_record_absent:
  assumes "loads rt json_line = Inr (PyDict data)"
    and "map_of data ''logger'' \<noteq> Some (PyStr ''http.log.access.log0'')"
  shows "json_to_clf rt json_line = Inr None
    \<and> (\<forall>l rest. strip l = json_line \<longrightarrow> main rt (l # rest) = main rt rest)"
proof -
  have "json_to_clf_body rt json_line = Inr None"
    using assms by (simp add: json_to_clf_body_def split: option.splits)
  then have "json_to_clf rt json_line = Inr None"
    by (simp add: json_to_clf_def)
  then show ?thesis
    by (auto split: prod.splits)
qed

theorem non_access_record_absent_witness:
  "json_to_clf (example_runtime 0) tls_line = Inr None
    \<and> main (example_runtime 0) [tls_line] = ([], None)"
proof -
  have parsed: "loads (example_runtime 0) tls_line = Inr (PyDict tls_record)"
    by (simp add: example_runtime_def example_loads_def tls_line_def access_line_def
      full_line_def sparse_line_def bare_line_def text_ts_line_def)
  have logger: "map_of tls_record ''logger'' \<noteq> Some (PyStr ''http.log.access.log0'')"
    by (simp add: tls_record_def)
  have stripped: "strip tls_line = tls_line"
    by (simp add: strip_def tls_line_def isspace_def)
  from non_access_record_absent [OF parsed logger] stripped show ?thesis
    by simp
qed

section \<open>The timestamp's format\<close>

text \<open>
  C8. For every \<^verbatim>\<open>datetime\<close> object, so for the one of every timestamp that
  \<^verbatim>\<open>fromtimestamp\<close> accepts, the first format of line 31 gives a string that is not
  empty, and the value of the \<^verbatim>\<open>or\<close> expression is that string: the second format,
  with the literal \<open>+0000\<close>, is never the one used.
\<close>

theorem fallback_unreachable:
  "strftime dt ''%d/%b/%Y:%H:%M:%S %z'' \<noteq> []
    \<and> time_str dt = strftime dt ''%d/%b/%Y:%H:%M:%S %z''"
  using strftime_primary_nonempty [of dt] time_str_primary [of dt] by (simp only: simp_thms)

lemmas line_defs = access_line_def full_line_def sparse_line_def bare_line_def tls_line_def
  text_ts_line_def

lemma access_parsed: "loads (example_runtime off) access_line = Inr (PyDict access_record)"
  by (simp add: example_runtime_def example_loads_def)

lemma full_parsed: "loads (example_runtime off) full_line = Inr (PyDict full_record)"
  by (simp add: example_runtime_def example_loads_def line_defs)

lemma sparse_parsed: "loads (example_runtime off) sparse_line = Inr (PyDict sparse_record)"
  by (simp add: example_runtime_def example_loads_def line_defs)

lemma bare_parsed:
  "loads (example_runtime off) bare_line = Inr (PyDict [(''logger'', PyStr ''http.log.access.log0'')])"
  by (simp add: example_runtime_def example_loads_def line_defs)

lemma access_instant:
  "fromtimestamp (example_runtime 0) (PyInt 1700000000) =
     Inr \<lparr>year = 2023, month = 11, day = 14, hour = 22, minute = 13, second = 20,
          microsecond = 0, tzinfo = None\<rparr>"
  by code_simp

lemma access_instant_east:
  "fromtimestamp (example_runtime 7200) (PyInt 1700000000) =
     Inr \<lparr>year = 2023, month = 11, day = 15, hour = 0, minute = 13, second = 20,
          microsecond = 0, tzinfo = None\<rparr>"
  by code_simp

lemma full_instant:
  "fromtimestamp (example_runtime 0) (PyFloat (Finite (3400000001 / 2))) =
     Inr \<lparr>year = 2023, month = 11, day = 14, hour = 22, minute = 13, second = 20,
          microsecond = 500000, tzinfo = None\<rparr>"
  by code_simp

lemma epoch_instant:
  "fromtimestamp (example_runtime 0) (PyInt 0) =
     Inr \<lparr>year = 1970, month = 1, day = 1, hour = 0, minute = 0, second = 0,
          microsecond = 0, tzinfo = None\<rparr>"
  by code_simp

lemma access_time_str:
  "time_str \<lparr>year = 2023, month = 11, day = 14, hour = 22, minute = 13, second = 20,
          microsecond = us, tzinfo = None\<rparr> = ''14/Nov/2023:22:13:20 ''"
  by (simp add: time_str_def directive_def zfill_def int_str_def digits.simps month_abbr_def)

lemma epoch_time_str:
  "time_str \<lparr>year = 1970, month = 1, day = 1, hour = 0, minute = 0, second = 0,
          microsecond = 0, tzinfo = None\<rparr> = ''01/Jan/1970:00:00:00 ''"
  by (simp add: time_str_def directive_def zfill_def int_str_def digits.simps month_abbr_def)

lemma header_first_absent:
  "map_of headers name = None \<Longrightarrow> header_first (PyDict headers) name = Inr (PyStr ''-'')"
  by (simp add: header_first_def)

lemma header_first_present:
  "map_of headers name = Some (PyList (x # xs)) \<Longrightarrow> header_first (PyDict headers) name = Inr x"
  by (simp add: header_first_def)

section \<open>The line's template\<close>

text \<open>
  C4. When every field is present (the top-level \<open>logger\<close>, \<open>ts\<close>, \<open>status\<close>,
  \<open>size\<close> and \<open>request\<close>, the request's \<open>remote_ip\<close>, \<open>method\<close>, \<open>uri\<close>,
  \<open>proto\<close> and \<open>headers\<close>, and both headers with a first value), with strings
  for the text fields and integers for \<open>status\<close> and \<open>size\<close>, the converter returns
  exactly \<^verbatim>\<open>REMOTE_IP - - [TIME] "METHOD URI PROTO" STATUS SIZE "REFERER" "USER_AGENT"\<close>,
  each value in its place, \<open>TIME\<close> being the value of line 31 for the record's
  \<open>ts\<close>. And the specification's record, wherever it parses to the object below and
  its \<open>ts\<close> is accepted, gives
  \<^verbatim>\<open>127.0.0.1 - - [TIME] "GET /index.html HTTP/1.1" 200 512 "-" "TestAgent/1.0"\<close>.
\<close>

theorem template_positions:
  assumes "loads rt json_line = Inr (PyDict data)"
    and "map_of data ''logger'' = Some (PyStr ''http.log.access.log0'')"
    and "map_of data ''ts'' = Some timestamp"
    and "fromtimestamp rt timestamp = Inr dt"
    and "map_of data ''status'' = Some (PyInt status)"
    and "map_of data ''size'' = Some (PyInt sz)"
    and "map_of data ''request'' = Some (PyDict request)"
    and "map_of request ''remote_ip'' = Some (PyStr remote_ip)"
    and "map_of request ''method'' = Some (PyStr method)"
    and "map_of request ''uri'' = Some (PyStr uri)"
    and "map_of request ''proto'' = Some (PyStr proto)"
    and "map_of request ''headers'' = Some (PyDict headers)"
    and "map_of headers ''User-Agent'' = Some (PyList (PyStr user_agent # uas))"
    and "map_of headers ''Referer'' = Some (PyList (PyStr referer # refs))"
  shows \<open>json_to_clf rt json_line =
      Inr (Some ((if remote_ip = ''::1'' then ''127.0.0.1'' else remote_ip) @ '' - - [''
        @ time_str dt @ ''] "'' @ method @ '' '' @ uri @ '' '' @ proto @ ''" ''
        @ int_str status @ '' '' @ int_str sz @ '' "'' @ referer @ ''" "'' @ user_agent @ ''"''))
    \<and> (\<forall>rt' dt'. loads rt' access_line = Inr (PyDict access_record)
          \<longrightarrow> fromtimestamp rt' (PyInt 1700000000) = Inr dt'
          \<longrightarrow> json_to_clf rt' access_line =
                Inr (Some (''127.0.0.1 - - ['' @ time_str dt'
                  @ ''] "GET /index.html HTTP/1.1" 200 512 "-" "TestAgent/1.0"'')))\<close>
proof
  have ua: "header_first (PyDict headers) ''User-Agent'' = Inr (PyStr user_agent)"
    using assms(13) by (rule header_first_present)
  have ref: "header_first (PyDict headers) ''Referer'' = Inr (PyStr referer)"
    using assms(14) by (rule header_first_present)
  have "json_to_clf rt json_line =
      Inr (Some (clf_format (float_repr rt)
        (if PyStr remote_ip = PyStr ''::1'' then PyStr ''127.0.0.1'' else PyStr remote_ip)
        (time_str dt) (PyStr method) (PyStr uri) (PyStr proto) (PyInt status) (PyInt sz)
        (PyStr referer) (PyStr user_agent)))"
    by (rule json_to_clf_run [OF assms(1) _ _ _ _ assms(4) _ _ _ _ _ _ ua ref,
          where request = "PyDict request"])
      (simp_all add: assms)
  then show \<open>json_to_clf rt json_line =
      Inr (Some ((if remote_ip = ''::1'' then ''127.0.0.1'' else remote_ip) @ '' - - [''
        @ time_str dt @ ''] "'' @ method @ '' '' @ uri @ '' '' @ proto @ ''" ''
        @ int_str status @ '' '' @ int_str sz @ '' "'' @ referer @ ''" "'' @ user_agent @ ''"''))\<close>
    by (simp add: clf_format_def)
next
  show \<open>\<forall>rt' dt'. loads rt' access_line = Inr (PyDict access_record)
          \<longrightarrow> fromtimestamp rt' (PyInt 1700000000) = Inr dt'
          \<longrightarrow> json_to_clf rt' access_line =
                Inr (Some (''127.0.0.1 - - ['' @ time_str dt'
                  @ ''] "GET /index.html HTTP/1.1" 200 512 "-" "TestAgent/1.0"''))\<close>
  proof (intro allI impI)
    fix rt' dt'
    assume parsed: "loads rt' access_line = Inr (PyDict access_record)"
      and instant: "fromtimestamp rt' (PyInt 1700000000) = Inr dt'"
    have "json_to_clf rt' access_line =
      Inr (Some (clf_format (float_repr rt')
        (if PyStr ''::1'' = PyStr ''::1'' then PyStr ''127.0.0.1'' else PyStr ''::1'')
        (time_str dt') (PyStr ''GET'') (PyStr ''/index.html'') (PyStr ''HTTP/1.1'')
        (PyInt 200) (PyInt 512) (PyStr ''-'') (PyStr ''TestAgent/1.0'')))"
      by (rule json_to_clf_run [OF parsed _ _ _ _ instant,
            where request = "PyDict access_request"
              and headers = "PyDict [(''User-Agent'', PyList [PyStr ''TestAgent/1.0''])]"])
        (simp_all add: access_record_def access_request_def header_first_def)
    then show \<open>json_to_clf rt' access_line =
                Inr (Some (''127.0.0.1 - - ['' @ time_str dt'
                  @ ''] "GET /index.html HTTP/1.1" 200 512 "-" "TestAgent/1.0"''))\<close>
      by (simp add: clf_format_def int_str_def digits.simps)
  qed
qed

theorem template_positions_witness:
  \<open>json_to_clf (example_runtime 0) full_line =
     Inr (Some ''203.0.113.9 - - [14/Nov/2023:22:13:20 ] "POST /api HTTP/2.0" 404 0 "https://example.org/" "curl/8.0"'')
   \<and> json_to_clf (example_runtime 0) access_line =
     Inr (Some ''127.0.0.1 - - [14/Nov/2023:22:13:20 ] "GET /index.html HTTP/1.1" 200 512 "-" "TestAgent/1.0"'')\<close>
proof -
  have fields:
    "map_of full_record ''logger'' = Some (PyStr ''http.log.access.log0'')"
    "map_of full_record ''ts'' = Some (PyFloat (Finite (3400000001 / 2)))"
    "map_of full_record ''status'' = Some (PyInt 404)"
    "map_of full_record ''size'' = Some (PyInt 0)"
    "map_of full_record ''request'' = Some (PyDict full_request)"
    "map_of full_request ''remote_ip'' = Some (PyStr ''203.0.113.9'')"
    "map_of full_request ''method'' = Some (PyStr ''POST'')"
    "map_of full_request ''uri'' = Some (PyStr ''/api'')"
    "map_of full_request ''proto'' = Some (PyStr ''HTTP/2.0'')"
    "map_of full_request ''headers'' = Some (PyDict full_headers)"
    "map_of full_headers ''User-Agent'' = Some (PyList [PyStr ''curl/8.0''])"
    "map_of full_headers ''Referer'' = Some (PyList [PyStr ''https://example.org/'', PyStr ''x''])"
    by (simp_all add: full_record_def full_request_def full_headers_def)
  note t = template_positions [OF full_parsed fields(1) fields(2) full_instant fields(3-12)]
  from t have \<open>json_to_clf (example_runtime 0) full_line =
     Inr (Some ''203.0.113.9 - - [14/Nov/2023:22:13:20 ] "POST /api HTTP/2.0" 404 0 "https://example.org/" "curl/8.0"'')\<close>
    by (simp add: access_time_str int_str_def digits.simps)
  moreover from t access_parsed [of 0] access_instant
  have \<open>json_to_clf (example_runtime 0) access_line =
     Inr (Some ''127.0.0.1 - - [14/Nov/2023:22:13:20 ] "GET /index.html HTTP/1.1" 200 512 "-" "TestAgent/1.0"'')\<close>
    by (simp add: access_time_str)
  ultimately show ?thesis by (simp only: simp_thms)
qed

section \<open>The address field\<close>

text \<open>
  C5. For a record that passes the filter and is converted, the value in the
  \<open>REMOTE_IP\<close> place is \<open>127.0.0.1\<close> when the request's \<open>remote_ip\<close> is the
  string \<open>::1\<close>, the \<open>remote_ip\<close> itself when it is anything else, and \<open>-\<close> when
  the request has none; a string is printed as it is.
\<close>

theorem remote_ip_field:
  assumes "loads rt json_line = Inr (PyDict data)"
    and "map_of data ''logger'' = Some (PyStr ''http.log.access.log0'')"
    and "py_get (PyDict data) ''request'' (PyDict []) = Inr (PyDict request)"
    and "py_get (PyDict data) ''ts'' (PyInt 0) = Inr timestamp"
    and "fromtimestamp rt timestamp = Inr dt"
    and "py_get (PyDict request) ''method'' (PyStr ''-'') = Inr method"
    and "py_get (PyDict request) ''uri'' (PyStr ''-'') = Inr uri"
    and "py_get (PyDict request) ''proto'' (PyStr ''-'') = Inr proto"
    and "py_get (PyDict data) ''status'' (PyInt 0) = Inr status"
    and "py_get (PyDict data) ''size'' (PyInt 0) = Inr sz"
    and "py_get (PyDict request) ''headers'' (PyDict []) = Inr headers"
    and "header_first headers ''User-Agent'' = Inr user_agent"
    and "header_first headers ''Referer'' = Inr referer"
  shows "json_to_clf rt json_line =
      Inr (Some (clf_format (float_repr rt)
        (case map_of request ''remote_ip'' of
           None \<Rightarrow> PyStr ''-''
         | Some v \<Rightarrow> if v = PyStr ''::1'' then PyStr ''127.0.0.1'' else v)
        (time_str dt) method uri proto status sz referer user_agent))
    \<and> (\<forall>s. py_str (float_repr rt) (PyStr s) = s)"
proof -
  have "json_to_clf rt json_line =
      Inr (Some (clf_format (float_repr rt)
        (if (case map_of request ''remote_ip'' of None \<Rightarrow> PyStr ''-'' | Some v \<Rightarrow> v) = PyStr ''::1''
         then PyStr ''127.0.0.1''
         else (case map_of request ''remote_ip'' of None \<Rightarrow> PyStr ''-'' | Some v \<Rightarrow> v))
        (time_str dt) method uri proto status sz referer user_agent))"
    by (rule json_to_clf_run [OF assms(1) _ assms(3) _ assms(4-13)]) (simp_all add: assms(2))
  then show ?thesis
    by (simp split: option.splits)
qed

theorem remote_ip_field_witness:
  \<open>json_to_clf (example_runtime 0) access_line =
     Inr (Some ''127.0.0.1 - - [14/Nov/2023:22:13:20 ] "GET /index.html HTTP/1.1" 200 512 "-" "TestAgent/1.0"'')
   \<and> json_to_clf (example_runtime 0) full_line =
     Inr (Some ''203.0.113.9 - - [14/Nov/2023:22:13:20 ] "POST /api HTTP/2.0" 404 0 "https://example.org/" "curl/8.0"'')
   \<and> json_to_clf (example_runtime 0) bare_line =
     Inr (Some ''- - - [01/Jan/1970:00:00:00 ] "- - -" 0 0 "-" "-"'')\<close>
proof -
  have a: \<open>json_to_clf (example_runtime 0) access_line =
     Inr (Some ''127.0.0.1 - - [14/Nov/2023:22:13:20 ] "GET /index.html HTTP/1.1" 200 512 "-" "TestAgent/1.0"'')\<close>
    using remote_ip_field [OF access_parsed, where request = access_request,
        OF _ _ _ access_instant]
    by (simp add: access_record_def access_request_def header_first_def access_time_str
        clf_format_def int_str_def digits.simps)
  have b: \<open>json_to_clf (example_runtime 0) full_line =
     Inr (Some ''203.0.113.9 - - [14/Nov/2023:22:13:20 ] "POST /api HTTP/2.0" 404 0 "https://example.org/" "curl/8.0"'')\<close>
    using remote_ip_field [OF full_parsed, where request = full_request,
        OF _ _ _ full_instant]
    by (simp add: full_record_def full_request_def full_headers_def header_first_def
        access_time_str clf_format_def int_str_def digits.simps)
  have c: \<open>json_to_clf (example_runtime 0) bare_line =
     Inr (Some ''- - - [01/Jan/1970:00:00:00 ] "- - -" 0 0 "-" "-"'')\<close>
    using remote_ip_field [OF bare_parsed, where request = "[]", OF _ _ _ epoch_instant]
    by (simp add: header_first_def epoch_time_str clf_format_def int_str_def digits.simps)
  from a b c show ?thesis by (simp only: simp_thms)
qed

lemma sparse_fields:
  "map_of sparse_record ''logger'' = Some (PyStr ''http.log.access.log0'')"
  "py_get (PyDict sparse_record) ''request'' (PyDict []) = Inr (PyDict sparse_request)"
  "py_get (PyDict sparse_record) ''ts'' (PyInt 0) = Inr (PyInt 0)"
  "py_get (PyDict sparse_request) ''headers'' (PyDict []) = Inr (PyDict [(''User-Agent'', PyList [])])"
  "header_first (PyDict [(''User-Agent'', PyList [])]) ''User-Agent'' = Inr (PyStr ''-'')"
  "header_first (PyDict [(''User-Agent'', PyList [])]) ''Referer'' = Inr (PyStr ''-'')"
  by (simp_all add: sparse_record_def sparse_request_def header_first_def)

section \<open>Defaults\<close>

text \<open>
  C6. For a record that passes the filter and is converted, each of \<open>remote_ip\<close>,
  \<open>method\<close>, \<open>uri\<close> and \<open>proto\<close> that the request lacks is \<open>-\<close>, each of
  \<open>status\<close> and \<open>size\<close> that the record lacks is \<open>0\<close>, and each of the headers
  \<open>Referer\<close> and \<open>User-Agent\<close> that is missing is \<open>-\<close>. The value in each place
  is read from its own key alone, so a field's default does not depend on which
  other fields are there.
\<close>

theorem defaults_independent:
  assumes "loads rt json_line = Inr (PyDict data)"
    and "map_of data ''logger'' = Some (PyStr ''http.log.access.log0'')"
    and "py_get (PyDict data) ''request'' (PyDict []) = Inr (PyDict request)"
    and "py_get (PyDict data) ''ts'' (PyInt 0) = Inr timestamp"
    and "fromtimestamp rt timestamp = Inr dt"
    and "py_get (PyDict request) ''headers'' (PyDict []) = Inr (PyDict headers)"
    and "header_first (PyDict headers) ''User-Agent'' = Inr user_agent"
    and "header_first (PyDict headers) ''Referer'' = Inr referer"
  shows "json_to_clf rt json_line =
      Inr (Some (clf_format (float_repr rt)
        (case map_of request ''remote_ip'' of
           None \<Rightarrow> PyStr ''-''
         | Some v \<Rightarrow> if v = PyStr ''::1'' then PyStr ''127.0.0.1'' else v)
        (time_str dt)
        (case map_of request ''method'' of None \<Rightarrow> PyStr ''-'' | Some v \<Rightarrow> v)
        (case map_of request ''uri'' of None \<Rightarrow> PyStr ''-'' | Some v \<Rightarrow> v)
        (case map_of request ''proto'' of None \<Rightarrow> PyStr ''-'' | Some v \<Rightarrow> v)
        (case map_of data ''status'' of None \<Rightarrow> PyInt 0 | Some v \<Rightarrow> v)
        (case map_of data ''size'' of None \<Rightarrow> PyInt 0 | Some v \<Rightarrow> v)
        (case map_of headers ''Referer'' of None \<Rightarrow> PyStr ''-'' | Some v \<Rightarrow> referer)
        (case map_of headers ''User-Agent'' of None \<Rightarrow> PyStr ''-'' | Some v \<Rightarrow> user_agent)))
    \<and> py_str (float_repr rt) (PyStr ''-'') = ''-''
    \<and> py_str (float_repr rt) (PyInt 0) = ''0''"
proof -
  have ua: "(case map_of headers ''User-Agent'' of None \<Rightarrow> PyStr ''-'' | Some v \<Rightarrow> user_agent)
      = user_agent"
    using assms(7) header_first_absent [of headers "''User-Agent''"]
    by (simp split: option.splits)
  have ref: "(case map_of headers ''Referer'' of None \<Rightarrow> PyStr ''-'' | Some v \<Rightarrow> referer)
      = referer"
    using assms(8) header_first_absent [of headers "''Referer''"]
    by (simp split: option.splits)
  have "json_to_clf rt json_line =
      Inr (Some (clf_format (float_repr rt)
        (if (case map_of request ''remote_ip'' of None \<Rightarrow> PyStr ''-'' | Some v \<Rightarrow> v) = PyStr ''::1''
         then PyStr ''127.0.0.1''
         else (case map_of request ''remote_ip'' of None \<Rightarrow> PyStr ''-'' | Some v \<Rightarrow> v))
        (time_str dt)
        (case map_of request ''method'' of None \<Rightarrow> PyStr ''-'' | Some v \<Rightarrow> v)
        (case map_of request ''uri'' of None \<Rightarrow> PyStr ''-'' | Some v \<Rightarrow> v)
        (case map_of request ''proto'' of None \<Rightarrow> PyStr ''-'' | Some v \<Rightarrow> v)
        (case map_of data ''status'' of None \<Rightarrow> PyInt 0 | Some v \<Rightarrow> v)
        (case map_of data ''size'' of None \<Rightarrow> PyInt 0 | Some v \<Rightarrow> v)
        referer user_agent))"
    by (rule json_to_clf_run [OF assms(1) _ assms(3) _ assms(4,5) _ _ _ _ _ assms(6,7,8)])
      (simp_all add: assms(2))
  moreover have "(if (case map_of request ''remote_ip'' of None \<Rightarrow> PyStr ''-'' | Some v \<Rightarrow> v) = PyStr ''::1''
         then PyStr ''127.0.0.1''
         else (case map_of request ''remote_ip'' of None \<Rightarrow> PyStr ''-'' | Some v \<Rightarrow> v))
     = (case map_of request ''remote_ip'' of
           None \<Rightarrow> PyStr ''-''
         | Some v \<Rightarrow> if v = PyStr ''::1'' then PyStr ''127.0.0.1'' else v)"
    by (simp split: option.splits)
  moreover have "py_str (float_repr rt) (PyInt 0) = ''0''"
    by (simp add: int_str_def digits.simps)
  ultimately show ?thesis
    by (simp add: ua ref)
qed

theorem defaults_independent_witness:
  \<open>json_to_clf (example_runtime 0) sparse_line =
     Inr (Some ''- - - [01/Jan/1970:00:00:00 ] "- /x -" 200 [1, 'a'] "-" "-"'')\<close>
  using defaults_independent [OF sparse_parsed sparse_fields(1-3) epoch_instant sparse_fields(4-6)]
  by (simp add: sparse_record_def sparse_request_def epoch_time_str clf_format_def
      int_str_def digits.simps str_repr_def repr_char_def printable_def Let_def)

section \<open>The headers\<close>

text \<open>
  C7. For a record that passes the filter and is converted, where the request's
  \<open>headers\<close> is a mapping or is missing and each of \<open>User-Agent\<close> and \<open>Referer\<close>
  holds a sequence or is missing, the value in the \<open>USER_AGENT\<close> place is the first
  element of the sequence under \<open>User-Agent\<close> and the value in the \<open>REFERER\<close> place
  the first element of the sequence under \<open>Referer\<close>; each is \<open>-\<close> on its own when
  its sequence is empty, which includes a missing key and a missing \<open>headers\<close>.
\<close>

theorem header_first_values:
  assumes "loads rt json_line = Inr (PyDict data)"
    and "map_of data ''logger'' = Some (PyStr ''http.log.access.log0'')"
    and "py_get (PyDict data) ''request'' (PyDict []) = Inr (PyDict request)"
    and "py_get (PyDict request) ''remote_ip'' (PyStr ''-'') = Inr remote_ip"
    and "py_get (PyDict data) ''ts'' (PyInt 0) = Inr timestamp"
    and "fromtimestamp rt timestamp = Inr dt"
    and "py_get (PyDict request) ''method'' (PyStr ''-'') = Inr method"
    and "py_get (PyDict request) ''uri'' (PyStr ''-'') = Inr uri"
    and "py_get (PyDict request) ''proto'' (PyStr ''-'') = Inr proto"
    and "py_get (PyDict data) ''status'' (PyInt 0) = Inr status"
    and "py_get (PyDict data) ''size'' (PyInt 0) = Inr sz"
    and "py_get (PyDict request) ''headers'' (PyDict []) = Inr (PyDict headers)"
    and "py_get (PyDict headers) ''User-Agent'' (PyList []) = Inr (PyList user_agents)"
    and "py_get (PyDict headers) ''Referer'' (PyList []) = Inr (PyList referers)"
  shows "json_to_clf rt json_line =
      Inr (Some (clf_format (float_repr rt)
        (if remote_ip = PyStr ''::1'' then PyStr ''127.0.0.1'' else remote_ip)
        (time_str dt) method uri proto status sz
        (case referers of [] \<Rightarrow> PyStr ''-'' | x # xs \<Rightarrow> x)
        (case user_agents of [] \<Rightarrow> PyStr ''-'' | x # xs \<Rightarrow> x)))
    \<and> (map_of request ''headers'' = None \<longrightarrow> headers = [])
    \<and> (map_of headers ''User-Agent'' = None \<longrightarrow> user_agents = [])
    \<and> (map_of headers ''Referer'' = None \<longrightarrow> referers = [])"
proof -
  have "json_to_clf rt json_line =
      Inr (Some (clf_format (float_repr rt)
        (if remote_ip = PyStr ''::1'' then PyStr ''127.0.0.1'' else remote_ip)
        (time_str dt) method uri proto status sz
        (case referers of [] \<Rightarrow> PyStr ''-'' | x # xs \<Rightarrow> x)
        (case user_agents of [] \<Rightarrow> PyStr ''-'' | x # xs \<Rightarrow> x)))"
    by (rule json_to_clf_run [OF assms(1) _ assms(3-12)
          header_first_list [OF assms(13)] header_first_list [OF assms(14)]])
      (simp add: assms(2))
  moreover have "map_of request ''headers'' = None \<longrightarrow> headers = []"
    using assms(12) by auto
  moreover have "map_of headers ''User-Agent'' = None \<longrightarrow> user_agents = []"
    using assms(13) by auto
  moreover have "map_of headers ''Referer'' = None \<longrightarrow> referers = []"
    using assms(14) by auto
  ultimately show ?thesis by (simp only: simp_thms)
qed

theorem header_first_values_witness:
  \<open>json_to_clf (example_runtime 0) full_line =
     Inr (Some ''203.0.113.9 - - [14/Nov/2023:22:13:20 ] "POST /api HTTP/2.0" 404 0 "https://example.org/" "curl/8.0"'')
   \<and> json_to_clf (example_runtime 0) sparse_line =
     Inr (Some ''- - - [01/Jan/1970:00:00:00 ] "- /x -" 200 [1, 'a'] "-" "-"'')
   \<and> json_to_clf (example_runtime 0) bare_line =
     Inr (Some ''- - - [01/Jan/1970:00:00:00 ] "- - -" 0 0 "-" "-"'')\<close>
proof -
  have a: \<open>json_to_clf (example_runtime 0) full_line =
     Inr (Some ''203.0.113.9 - - [14/Nov/2023:22:13:20 ] "POST /api HTTP/2.0" 404 0 "https://example.org/" "curl/8.0"'')\<close>
    using header_first_values [OF full_parsed, where request = full_request
        and headers = full_headers, OF _ _ _ _ full_instant]
    by (simp add: full_record_def full_request_def full_headers_def
        access_time_str clf_format_def int_str_def digits.simps)
  have b: \<open>json_to_clf (example_runtime 0) sparse_line =
     Inr (Some ''- - - [01/Jan/1970:00:00:00 ] "- /x -" 200 [1, 'a'] "-" "-"'')\<close>
    using header_first_values [OF sparse_parsed, where request = sparse_request
        and headers = "[(''User-Agent'', PyList [])]", OF _ _ _ _ epoch_instant]
    by (simp add: sparse_record_def sparse_request_def epoch_time_str clf_format_def
      int_str_def digits.simps str_repr_def repr_char_def printable_def Let_def)
  have c: \<open>json_to_clf (example_runtime 0) bare_line =
     Inr (Some ''- - - [01/Jan/1970:00:00:00 ] "- - -" 0 0 "-" "-"'')\<close>
    using header_first_values [OF bare_parsed, where request = "[]"
        and headers = "[]", OF _ _ _ _ epoch_instant]
    by (simp add: epoch_time_str clf_format_def int_str_def digits.simps)
  from a b c show ?thesis by (simp only: simp_thms)
qed

section \<open>Status and size\<close>

text \<open>
  C10. For a record that passes the filter and is converted, whatever values the
  record holds under \<open>status\<close> and \<open>size\<close> are printed in the \<open>STATUS\<close> and
  \<open>SIZE\<close> places as \<^verbatim>\<open>str\<close> gives them, a string as it is: no value there is
  checked or converted, and none makes the converter skip the line.
\<close>

theorem status_size_verbatim:
  assumes "loads rt json_line = Inr (PyDict data)"
    and "map_of data ''logger'' = Some (PyStr ''http.log.access.log0'')"
    and "map_of data ''status'' = Some status"
    and "map_of data ''size'' = Some sz"
    and "py_get (PyDict data) ''request'' (PyDict []) = Inr request"
    and "py_get request ''remote_ip'' (PyStr ''-'') = Inr remote_ip"
    and "py_get (PyDict data) ''ts'' (PyInt 0) = Inr timestamp"
    and "fromtimestamp rt timestamp = Inr dt"
    and "py_get request ''method'' (PyStr ''-'') = Inr method"
    and "py_get request ''uri'' (PyStr ''-'') = Inr uri"
    and "py_get request ''proto'' (PyStr ''-'') = Inr proto"
    and "py_get request ''headers'' (PyDict []) = Inr headers"
    and "header_first headers ''User-Agent'' = Inr user_agent"
    and "header_first headers ''Referer'' = Inr referer"
  shows \<open>json_to_clf rt json_line =
      Inr (Some (py_str (float_repr rt)
          (if remote_ip = PyStr ''::1'' then PyStr ''127.0.0.1'' else remote_ip)
        @ '' - - ['' @ time_str dt @ ''] "'' @ py_str (float_repr rt) method @ '' ''
        @ py_str (float_repr rt) uri @ '' '' @ py_str (float_repr rt) proto @ ''" ''
        @ py_str (float_repr rt) status @ '' '' @ py_str (float_repr rt) sz @ '' "''
        @ py_str (float_repr rt) referer @ ''" "'' @ py_str (float_repr rt) user_agent @ ''"''))
    \<and> (\<forall>s. py_str (float_repr rt) (PyStr s) = s)\<close>
proof -
  have "json_to_clf rt json_line =
      Inr (Some (clf_format (float_repr rt)
        (if remote_ip = PyStr ''::1'' then PyStr ''127.0.0.1'' else remote_ip)
        (time_str dt) method uri proto status sz referer user_agent))"
    by (rule json_to_clf_run [OF assms(1) _ assms(5-11) _ _ assms(12-14)])
      (simp_all add: assms(2-4))
  then show ?thesis
    by (simp add: clf_format_def)
qed

theorem status_size_verbatim_witness:
  \<open>json_to_clf (example_runtime 0) sparse_line =
     Inr (Some ''- - - [01/Jan/1970:00:00:00 ] "- /x -" 200 [1, 'a'] "-" "-"'')\<close>
  using status_size_verbatim [OF sparse_parsed, where request = "PyDict sparse_request"
      and headers = "PyDict [(''User-Agent'', PyList [])]", OF _ _ _ _ _ _ epoch_instant]
  by (simp add: sparse_record_def sparse_request_def header_first_def epoch_time_str
      int_str_def digits.simps str_repr_def repr_char_def printable_def Let_def)

lemma json_to_clf_body_Some:
  assumes "json_to_clf_body rt json_line = Inr (Some s)"
  shows "\<exists>fr ip t m u p st sz r ua. s = clf_format fr ip t m u p st sz r ua"
  using assms
  by (auto simp: json_to_clf_body_def andThen_def Let_def split: sum.splits if_splits; blast)

lemma json_to_clf_Some:
  assumes "json_to_clf rt json_line = Inr (Some s)"
  shows "\<exists>fr ip t m u p st sz r ua. s = clf_format fr ip t m u p st sz r ua"
proof -
  from assms have "json_to_clf_body rt json_line = Inr (Some s)"
    by (auto simp: json_to_clf_def split: sum.splits if_splits)
  then show ?thesis by (rule json_to_clf_body_Some)
qed

lemma clf_format_split:
  \<open>clf_format fr ip t m u p st sz r ua =
     py_str fr ip @ '' - - ['' @ (t @ ''] "'' @ py_str fr m @ '' ''
       @ py_str fr u @ '' '' @ py_str fr p @ ''" '' @ py_str fr st @ '' ''
       @ py_str fr sz @ '' "'' @ py_str fr r @ ''" "'' @ py_str fr ua @ ''"'')\<close>
  by (simp add: clf_format_def)

lemma json_to_clf_Some_nonempty:
  assumes "json_to_clf rt json_line = Inr (Some s)"
  shows "s \<noteq> [] \<and> (\<exists>p q. s = p @ '' - - ['' @ q)"
proof -
  from json_to_clf_Some [OF assms]
  obtain fr ip t m u p st sz r ua where s: "s = clf_format fr ip t m u p st sz r ua"
    by blast
  have "\<exists>p q. s = p @ '' - - ['' @ q"
    unfolding s clf_format_split by blast
  then show ?thesis by auto
qed

lemma main_prints:
  "fst (main rt lines) =
     List.map_filter (\<lambda>l. case json_to_clf rt (strip l) of Inl e \<Rightarrow> None | Inr r \<Rightarrow> r)
       (takeWhile (\<lambda>l. \<not> isl (json_to_clf rt (strip l))) lines)"
proof (induction lines)
  case Nil
  show ?case by simp
next
  case (Cons l rest)
  show ?case
  proof (cases "json_to_clf rt (strip l)")
    case (Inl e)
    then show ?thesis by simp
  next
    case (Inr r)
    show ?thesis
    proof (cases r)
      case None
      with Inr Cons.IH show ?thesis
        by (simp add: case_prod_beta)
    next
      case (Some s)
      with Inr have "s \<noteq> []"
        using json_to_clf_Some_nonempty [of rt "strip l" s] by simp
      with Some Inr Cons.IH show ?thesis
        by (simp add: case_prod_beta)
    qed
  qed
qed

lemma access_converted:
  \<open>json_to_clf (example_runtime 0) access_line =
     Inr (Some ''127.0.0.1 - - [14/Nov/2023:22:13:20 ] "GET /index.html HTTP/1.1" 200 512 "-" "TestAgent/1.0"'')\<close>
  using json_to_clf_run [OF access_parsed, where request = "PyDict access_request"
      and headers = "PyDict [(''User-Agent'', PyList [PyStr ''TestAgent/1.0''])]",
      OF _ _ _ _ access_instant]
  by (simp add: access_record_def access_request_def header_first_def access_time_str
      clf_format_def int_str_def digits.simps)

lemma east_time_str:
  "time_str \<lparr>year = 2023, month = 11, day = 15, hour = 0, minute = 13, second = 20,
          microsecond = 0, tzinfo = None\<rparr> = ''15/Nov/2023:00:13:20 ''"
  by (simp add: time_str_def directive_def zfill_def int_str_def digits.simps month_abbr_def)

lemma access_converted_east:
  \<open>json_to_clf (example_runtime 7200) access_line =
     Inr (Some ''127.0.0.1 - - [15/Nov/2023:00:13:20 ] "GET /index.html HTTP/1.1" 200 512 "-" "TestAgent/1.0"'')\<close>
  using json_to_clf_run [OF access_parsed, where request = "PyDict access_request"
      and headers = "PyDict [(''User-Agent'', PyList [PyStr ''TestAgent/1.0''])]",
      OF _ _ _ _ access_instant_east]
  by (simp add: access_record_def access_request_def header_first_def east_time_str
      clf_format_def int_str_def digits.simps)

lemma tls_skipped: "json_to_clf (example_runtime off) tls_line = Inr None"
  by (simp add: json_to_clf_def json_to_clf_body_def example_runtime_def example_loads_def
      line_defs tls_record_def)

lemma undecodable_skipped: "json_to_clf (example_runtime off) ''not json at all'' = Inr None"
  by (simp add: json_to_clf_def json_to_clf_body_def example_runtime_def example_loads_def
      line_defs caught_def)

lemma list_line_raises: "json_to_clf (example_runtime off) ''[]'' = Inl AttributeError"
  by (simp add: json_to_clf_def json_to_clf_body_def example_runtime_def example_loads_def
      line_defs caught_def)

lemma text_ts_raises: "json_to_clf (example_runtime off) text_ts_line = Inl TypeError"
  by (simp add: json_to_clf_def json_to_clf_body_def example_runtime_def example_loads_def
      line_defs text_ts_record_def fromtimestamp_def caught_def)

lemma strip_examples:
  "strip access_line = access_line"
  "strip tls_line = tls_line"
  "strip ''[]'' = ''[]''"
  "strip ''not json at all'' = ''not json at all''"
  by (simp_all add: strip_def isspace_def line_defs)

lemma time_str_naive:
  assumes "tzinfo dt = None"
  shows "time_str dt = strftime dt ''%d/%b/%Y:%H:%M:%S'' @ '' ''"
  using assms by (simp add: time_str_primary directive_def)

section \<open>What the driver prints\<close>

text \<open>
  C9. A line that the converter returns is never empty: it contains the fixed
  characters \<^verbatim>\<open> - - [\<close> of the template. So the driver's test \<^verbatim>\<open>if clf_line\<close> lets
  through every line the converter returned: what the driver prints is, in order, the
  results that are present, for the input lines before the first one on which an
  exception leaves the converter.
\<close>

theorem present_result_printed:
  "(\<forall>json_line s. json_to_clf rt json_line = Inr (Some s)
       \<longrightarrow> s \<noteq> [] \<and> (\<exists>p q. s = p @ '' - - ['' @ q))
   \<and> fst (main rt lines) =
      List.map_filter (\<lambda>l. case json_to_clf rt (strip l) of Inl e \<Rightarrow> None | Inr r \<Rightarrow> r)
        (takeWhile (\<lambda>l. \<not> isl (json_to_clf rt (strip l))) lines)"
  using json_to_clf_Some_nonempty [of rt] main_prints [of rt lines] by blast

theorem present_result_printed_witness:
  \<open>json_to_clf (example_runtime 0) access_line =
     Inr (Some ''127.0.0.1 - - [14/Nov/2023:22:13:20 ] "GET /index.html HTTP/1.1" 200 512 "-" "TestAgent/1.0"'')
   \<and> fst (main (example_runtime 0) [tls_line, access_line]) =
     [''127.0.0.1 - - [14/Nov/2023:22:13:20 ] "GET /index.html HTTP/1.1" 200 512 "-" "TestAgent/1.0"'']\<close>
  using present_result_printed [of "example_runtime 0" "[tls_line, access_line]"]
  by (simp add: strip_examples access_converted tls_skipped)

section \<open>The offset of the timestamp\<close>

text \<open>
  C1. \<^verbatim>\<open>fromtimestamp\<close> returns a naive object, for which \<^verbatim>\<open>%z\<close> is the empty
  string: for every timestamp it accepts, the text between the brackets is the date
  and time followed by one space and nothing else. With the zone two hours east of
  UTC the specification's record gives \<^verbatim>\<open>[15/Nov/2023:00:13:20 ]\<close>, with no
  \<open>+0200\<close>.
\<close>

theorem offset_suffix_missing:
  \<open>json_to_clf (example_runtime 7200) access_line =
     Inr (Some ''127.0.0.1 - - [15/Nov/2023:00:13:20 ] "GET /index.html HTTP/1.1" 200 512 "-" "TestAgent/1.0"'')
   \<and> (\<forall>rt timestamp. case fromtimestamp rt timestamp of
         Inl e \<Rightarrow> True
       | Inr dt \<Rightarrow> time_str dt = strftime dt ''%d/%b/%Y:%H:%M:%S'' @ '' '')\<close>
proof -
  have "case fromtimestamp rt timestamp of
         Inl e \<Rightarrow> True
       | Inr dt \<Rightarrow> time_str dt = strftime dt ''%d/%b/%Y:%H:%M:%S'' @ '' ''" for rt timestamp
  proof (cases "fromtimestamp rt timestamp")
    case (Inl e)
    then show ?thesis by simp
  next
    case (Inr dt)
    then have "tzinfo dt = None" by (rule fromtimestamp_naive)
    then have "time_str dt = strftime dt ''%d/%b/%Y:%H:%M:%S'' @ '' ''"
      by (rule time_str_naive)
    with Inr show ?thesis by (simp del: strftime.simps)
  qed
  with access_converted_east show ?thesis by blast
qed

section \<open>Exceptions that the handler does not name\<close>

text \<open>
  C2. The line \<^verbatim>\<open>[]\<close> is valid JSON and parses to a list, which has no \<^verbatim>\<open>get\<close>:
  the \<^verbatim>\<open>AttributeError\<close> is none of the classes of line 49, leaves the converter and
  ends the driver's loop, so the access record on the next line is not printed. A
  record whose \<open>ts\<close> is a string leaves the converter with a \<^verbatim>\<open>TypeError\<close> in the
  same way. A line that is not JSON at all is skipped, and the line after it is
  printed.
\<close>

theorem uncaught_exception_aborts:
  \<open>json_to_clf (example_runtime 0) ''[]'' = Inl AttributeError
   \<and> json_to_clf (example_runtime 0) text_ts_line = Inl TypeError
   \<and> main (example_runtime 0) [''[]'', access_line] = ([], Some AttributeError)
   \<and> main (example_runtime 0) [''not json at all'', access_line] =
       ([''127.0.0.1 - - [14/Nov/2023:22:13:20 ] "GET /index.html HTTP/1.1" 200 512 "-" "TestAgent/1.0"''], None)\<close>
  by (simp add: strip_examples list_line_raises text_ts_raises undecodable_skipped
      access_converted)

end
